theory Spec2Isabelle
  imports Main
begin

section \<open>Exceptions\<close>

text \<open>
  The three exception classes of \<^verbatim>\<open>rosteron/exceptions.py\<close> carry the argument of
  their constructor.  The remaining constructors are the Python built-in exceptions, the one
  of the form library and the one of the HTTP library that the methods of
  \<^verbatim>\<open>Session\<close> meet; an exception is the \<open>Inl\<close> branch of a result.
\<close>

datatype error =
    BadResponseError string
  | BadCredentialsError string
  | NotLoggedInError
  | AttributeError
  | TypeError
  | KeyError
  | ValueError
  | IndexError
  | LinkNotFoundError
  | RequestException

section \<open>The document tree\<close>

text \<open>
  A parsed page is a tree of tags and strings, as the HTML library hands it to the module:
  a tag has a name, its attributes (a dictionary, here an association list read with
  \<open>map_of\<close>) and its contents; \<open>Text\<close> is a string of the document.
\<close>

datatype node =
    Tag string "(string \<times> string) list" "node list"
  | Text string

fun is_tag :: "node \<Rightarrow> bool" where
  "is_tag (Tag n a cs) = True"
| "is_tag (Text t) = False"

fun tag_name :: "node \<Rightarrow> string" where
  "tag_name (Tag n a cs) = n"
| "tag_name (Text t) = []"

fun attrs :: "node \<Rightarrow> (string \<times> string) list" where
  "attrs (Tag n a cs) = a"
| "attrs (Text t) = []"

fun contents :: "node \<Rightarrow> node list" where
  "contents (Tag n a cs) = cs"
| "contents (Text t) = []"

text \<open>All nodes below a node, in document order (the order in which a search visits them).\<close>

fun descendants :: "node \<Rightarrow> node list" where
  "descendants (Tag n a cs) = concat (map (\<lambda>c. c # descendants c) cs)"
| "descendants (Text t) = []"

text \<open>\<^verbatim>\<open>tag[key]\<close>: the value of an attribute, \<^verbatim>\<open>KeyError\<close> when the tag has none.\<close>

definition getitem :: "node \<Rightarrow> string \<Rightarrow> error + string" where
  "getitem t key = (case map_of (attrs t) key of None \<Rightarrow> Inl KeyError | Some v \<Rightarrow> Inr v)"

definition first_of :: "'a list \<Rightarrow> 'a option" where
  "first_of xs = (case xs of [] \<Rightarrow> None | x # _ \<Rightarrow> Some x)"

text \<open>\<^verbatim>\<open>tag.find(attrs={key: v})\<close>: the first tag below with that attribute value.\<close>

definition has_attr :: "string \<Rightarrow> string \<Rightarrow> node \<Rightarrow> bool" where
  "has_attr key v t = (is_tag t \<and> map_of (attrs t) key = Some v)"

definition find_attrs :: "string \<Rightarrow> string \<Rightarrow> node \<Rightarrow> node option" where
  "find_attrs key v t = first_of (filter (has_attr key v) (descendants t))"

text \<open>\<^verbatim>\<open>tag.find_all(name)\<close>, \<^verbatim>\<open>tag.find(name)\<close> and
  \<^verbatim>\<open>tag.find_all(name, recursive=False)\<close>.\<close>

definition named :: "string \<Rightarrow> node \<Rightarrow> bool" where
  "named n t = (is_tag t \<and> tag_name t = n)"

definition find_all :: "string \<Rightarrow> node \<Rightarrow> node list" where
  "find_all n t = filter (named n) (descendants t)"

definition find_name :: "string \<Rightarrow> node \<Rightarrow> node option" where
  "find_name n t = first_of (find_all n t)"

definition find_all_children :: "string \<Rightarrow> node \<Rightarrow> node list" where
  "find_all_children n t = filter (named n) (contents t)"

text \<open>
  \<^verbatim>\<open>tag.find(class_=c)\<close>: the class attribute is a list of tokens separated by white
  space, and a tag matches when \<open>c\<close> is one of its tokens.
\<close>

definition is_space :: "char \<Rightarrow> bool" where
  "is_space c = (c \<in> set [CHR '' '', CHR 0x09, CHR 0x0A, CHR 0x0B, CHR 0x0C, CHR 0x0D,
                            CHR 0x1C, CHR 0x1D, CHR 0x1E, CHR 0x1F])"

fun tokens_acc :: "string \<Rightarrow> string \<Rightarrow> string list" where
  "tokens_acc w [] = (if w = [] then [] else [w])"
| "tokens_acc w (c # cs) =
     (if is_space c then (if w = [] then tokens_acc [] cs else w # tokens_acc [] cs)
      else tokens_acc (w @ [c]) cs)"

definition tokens :: "string \<Rightarrow> string list" where
  "tokens s = tokens_acc [] s"

definition has_class :: "string \<Rightarrow> node \<Rightarrow> bool" where
  "has_class c t =
     (is_tag t \<and> (case map_of (attrs t) ''class'' of None \<Rightarrow> False
                   | Some v \<Rightarrow> c \<in> set (tokens v)))"

definition find_class :: "string \<Rightarrow> node \<Rightarrow> node option" where
  "find_class c t = first_of (filter (has_class c) (descendants t))"

text \<open>
  \<^verbatim>\<open>tag.string\<close>: the string of a tag with exactly one child, looked for through
  single-child tags; \<^verbatim>\<open>None\<close> for any other tag.
\<close>

fun string_of :: "node \<Rightarrow> string option" where
  "string_of (Text t) = Some t"
| "string_of (Tag n a [c]) = string_of c"
| "string_of (Tag n a cs) = None"

section \<open>Dates and times\<close>

text \<open>
  A \<^verbatim>\<open>datetime.date\<close> and a \<^verbatim>\<open>datetime.datetime\<close>.  Every datetime of the
  module is an aware one in UTC (\<^verbatim>\<open>datetime.now(timezone.utc)\<close>, or the result of
  \<^verbatim>\<open>astimezone(timezone.utc)\<close>), so the record holds the UTC fields only.
\<close>

record date =
  year :: nat
  month :: nat
  day :: nat

record datetime =
  dt_date :: date
  hour :: nat
  minute :: nat
  second :: nat
  microsecond :: nat

definition digit :: "nat \<Rightarrow> char" where
  "digit n = ''0123456789'' ! (n mod 10)"

text \<open>The decimal digits of a number, padded with zeros to a width (\<^verbatim>\<open>%02d\<close>).\<close>

fun zpad :: "nat \<Rightarrow> nat \<Rightarrow> string" where
  "zpad 0 n = (if n = 0 then [] else zpad 0 (n div 10) @ [digit n])"
| "zpad (Suc w) n = zpad w (n div 10) @ [digit n]"

definition str_nat :: "nat \<Rightarrow> string" where
  "str_nat n = zpad 1 n"

text \<open>\<^verbatim>\<open>str(dt)\<close> of an aware datetime in UTC: the microseconds are printed unless zero.\<close>

definition str_datetime :: "datetime \<Rightarrow> string" where
  "str_datetime t =
     zpad 4 (year (dt_date t)) @ ''-'' @ zpad 2 (month (dt_date t)) @ ''-'' @
     zpad 2 (day (dt_date t)) @ '' '' @ zpad 2 (hour t) @ '':'' @ zpad 2 (minute t) @ '':'' @
     zpad 2 (second t) @ (if microsecond t = 0 then [] else ''.'' @ zpad 6 (microsecond t)) @
     ''+00:00''"

text \<open>\<^verbatim>\<open>dt.strftime('%Y%m%dT%H%M%S.%fZ')\<close>.\<close>

definition strftime :: "datetime \<Rightarrow> string" where
  "strftime t =
     zpad 4 (year (dt_date t)) @ zpad 2 (month (dt_date t)) @ zpad 2 (day (dt_date t)) @ ''T'' @
     zpad 2 (hour t) @ zpad 2 (minute t) @ zpad 2 (second t) @ ''.'' @
     zpad 6 (microsecond t) @ ''Z''"

section \<open>The data classes\<close>

text \<open>
  \<^verbatim>\<open>Item\<close>, \<^verbatim>\<open>Snapshot\<close>, \<^verbatim>\<open>_Response\<close> and \<^verbatim>\<open>_LogEntry\<close>.  The classes
  do not validate their fields, so a field can hold \<^verbatim>\<open>None\<close> wherever the code that
  builds the object can pass it: the date and title of an item, the content of a response.
\<close>

record Item =
  item_date :: "date option"
  item_title :: "string option"
  item_detail :: "string option list"

record Snapshot =
  snap_time :: datetime
  snap_items :: "Item list"

record Response =
  resp_time :: datetime
  resp_id :: string
  resp_content :: "node option"

text \<open>
  One request with the response to it, and the final \<^verbatim>\<open>requests.Response\<close> of a
  navigation: the final exchange, the redirects before it (\<^verbatim>\<open>history\<close>) and the parsed
  page the browser attaches (\<^verbatim>\<open>None\<close> when the body is not HTML).
\<close>

record exchange =
  req_method :: string
  req_url :: string
  status_code :: nat
  reason :: "string option"
  headers :: "(string \<times> string) list"
  body_text :: string

record http_response =
  final :: exchange
  history :: "exchange list"
  soup :: "node option"

record LogEntry =
  entry_time :: datetime
  entry_response :: http_response
  entry_purpose :: string

section \<open>The browser and the network\<close>

text \<open>
  The state of the \<^verbatim>\<open>StatefulBrowser\<close> that the module reads: the cookie jar (name and
  value of each cookie, the value possibly \<^verbatim>\<open>None\<close>), the current page, the selected
  form with the values filled in, and the requests issued so far.
\<close>

type_synonym cookie = "string \<times> string option"

type_synonym form = "node \<times> (string \<times> string) list"

datatype request =
    Open_url string
  | Submit_form form

record browser =
  cookiejar :: "cookie list"
  page :: "node option"
  selected :: "form option"
  sent :: "request list"

text \<open>
  What the outside world contributes to one navigation: the clock read before the request,
  the cookie jar as the HTTP library leaves it, and the response, or \<^verbatim>\<open>None\<close> when the
  HTTP library raises \<^verbatim>\<open>RequestException\<close>.  The world is a function of the number
  of requests issued before.
\<close>

record io_step =
  clock :: datetime
  jar_after :: "cookie list"
  reply :: "http_response option"

type_synonym world = "nat \<Rightarrow> io_step"

text \<open>
  \<^verbatim>\<open>name in cookiejar\<close>: the jar looks for the cookies of that name; two of them with a
  value are a conflict, which counts as present; otherwise the cookie is present when the
  value found is not empty.
\<close>

fun find_no_duplicates :: "string \<Rightarrow> string option \<Rightarrow> cookie list \<Rightarrow> bool" where
  "find_no_duplicates name toReturn [] =
     (case toReturn of None \<Rightarrow> False | Some v \<Rightarrow> v \<noteq> [])"
| "find_no_duplicates name toReturn ((n, v) # cs) =
     (if n = name
      then (if toReturn \<noteq> None then True else find_no_duplicates name v cs)
      else find_no_duplicates name toReturn cs)"

definition jar_contains :: "string \<Rightarrow> cookie list \<Rightarrow> bool" where
  "jar_contains name jar = find_no_duplicates name None jar"

text \<open>
  \<^verbatim>\<open>browser.open(url)\<close> and \<^verbatim>\<open>browser.submit_selected()\<close>.  A response replaces the
  current page and drops the selected form; a \<^verbatim>\<open>RequestException\<close> leaves both.
  Submitting with no form selected raises \<^verbatim>\<open>AttributeError\<close> before any request.
\<close>

definition send :: "world \<Rightarrow> browser \<Rightarrow> request \<Rightarrow> browser \<times> (error + http_response)" where
  "send W b rq =
     (let st = W (length (sent b));
          b1 = b\<lparr>cookiejar := jar_after st, sent := sent b @ [rq]\<rparr>
      in case reply st of
           None \<Rightarrow> (b1, Inl RequestException)
         | Some r \<Rightarrow> (b1\<lparr>page := soup r, selected := None\<rparr>, Inr r))"

definition browser_open :: "world \<Rightarrow> browser \<Rightarrow> string \<Rightarrow> browser \<times> (error + http_response)" where
  "browser_open W b u = send W b (Open_url u)"

definition submit_selected :: "world \<Rightarrow> browser \<Rightarrow> browser \<times> (error + http_response)" where
  "submit_selected W b =
     (case selected b of
        None \<Rightarrow> (b, Inl AttributeError)
      | Some f \<Rightarrow> send W b (Submit_form f))"

text \<open>\<^verbatim>\<open>browser.select_form()\<close>: the first form of the current page.\<close>

definition select_form :: "browser \<Rightarrow> error + browser" where
  "select_form b =
     (case page b of
        None \<Rightarrow> Inl AttributeError
      | Some pg \<Rightarrow>
          (case find_name ''form'' pg of
             None \<Rightarrow> Inl LinkNotFoundError
           | Some f \<Rightarrow> Inr (b\<lparr>selected := Some (f, [])\<rparr>)))"

text \<open>
  The two library functions that the module calls and that are taken as they come:
  \<^verbatim>\<open>parsedate_to_datetime\<close> (followed by \<^verbatim>\<open>astimezone(timezone.utc)\<close>) on the value of
  a \<^verbatim>\<open>Date\<close> header, and the assignment \<^verbatim>\<open>form[name] = value\<close> of the form library.
\<close>

record library =
  parsedate_to_datetime :: "string \<Rightarrow> error + datetime"
  form_set :: "form \<Rightarrow> string \<Rightarrow> string \<Rightarrow> error + form"

section \<open>Session\<close>

record Session =
  url :: string
  browser :: browser
  log :: "LogEntry list"

text \<open>\<^verbatim>\<open>Session.is_logged_in\<close>\<close>

definition is_logged_in :: "Session \<Rightarrow> bool" where
  "is_logged_in s = jar_contains ''.ASPXAUTH'' (cookiejar (browser s))"

text \<open>The headers of a response are a dictionary with case-insensitive keys.\<close>

definition lower_char :: "char \<Rightarrow> char" where
  "lower_char c =
     (case map_of (zip ''ABCDEFGHIJKLMNOPQRSTUVWXYZ'' ''abcdefghijklmnopqrstuvwxyz'') c of
        None \<Rightarrow> c | Some l \<Rightarrow> l)"

definition lower :: "string \<Rightarrow> string" where
  "lower s = map lower_char s"

definition header :: "string \<Rightarrow> (string \<times> string) list \<Rightarrow> string option" where
  "header key hs = map_of (map (\<lambda>(k, v). (lower k, v)) hs) (lower key)"

text \<open>
  \<^verbatim>\<open>Session._browse\<close>, in three parts.  \<open>classify\<close> is the body of the second
  \<^verbatim>\<open>try\<close>: \<^verbatim>\<open>soup.find\<close> on a missing page is an \<^verbatim>\<open>AttributeError\<close>, subscripting
  a missing page container a \<^verbatim>\<open>TypeError\<close>, a missing \<^verbatim>\<open>id\<close> a \<^verbatim>\<open>KeyError\<close>;
  the search for the content container returns \<^verbatim>\<open>None\<close> when there is none, and the
  response is built with it.  \<open>except_clause\<close> is the \<^verbatim>\<open>except (AttributeError, TypeError)\<close>.
\<close>

definition classify :: "node option \<Rightarrow> datetime \<Rightarrow> error + Response" where
  "classify sp dt =
     (case sp of
        None \<Rightarrow> Inl AttributeError
      | Some doc \<Rightarrow>
          (case find_attrs ''data-role'' ''page'' doc of
             None \<Rightarrow> Inl TypeError
           | Some page_div \<Rightarrow>
               (case getitem page_div ''id'' of
                  Inl e \<Rightarrow> Inl e
                | Inr page_id \<Rightarrow>
                    Inr \<lparr>resp_time = dt, resp_id = page_id,
                         resp_content = find_attrs ''data-role'' ''content'' page_div\<rparr>)))"

definition except_clause :: "string \<Rightarrow> error + 'a \<Rightarrow> error + 'a" where
  "except_clause purpose r =
     (case r of
        Inl e \<Rightarrow> (if e = AttributeError \<or> e = TypeError then Inl (BadResponseError purpose)
                  else Inl e)
      | Inr v \<Rightarrow> Inr v)"

definition browse ::
    "library \<Rightarrow> world \<Rightarrow> Session \<Rightarrow> string option \<Rightarrow> string \<Rightarrow> Session \<times> (error + Response)" where
  "browse L W s url_fragment purpose =
     (let request_time = clock (W (length (sent (browser s))));
          (b1, r) = (case url_fragment of
                       Some (c # cs) \<Rightarrow> browser_open W (browser s) (url s @ ''/'' @ (c # cs))
                     | _ \<Rightarrow> submit_selected W (browser s))
      in case r of
           Inl e \<Rightarrow> (s\<lparr>browser := b1\<rparr>,
                     Inl (if e = RequestException then BadResponseError purpose else e))
         | Inr response \<Rightarrow>
             (let s1 = s\<lparr>browser := b1,
                         log := log s @ [\<lparr>entry_time = request_time, entry_response = response,
                                          entry_purpose = purpose\<rparr>]\<rparr>
              in case (case header ''Date'' (headers (final response)) of
                         Some v \<Rightarrow> parsedate_to_datetime L v
                       | None \<Rightarrow> Inr request_time) of
                   Inl e \<Rightarrow> (s1, Inl e)
                 | Inr dt \<Rightarrow> (s1, except_clause purpose (classify (page (browser s1)) dt))))"

text \<open>
  \<^verbatim>\<open>Session.log_in\<close>.  \<open>stripped_strings\<close> is the generator
  \<^verbatim>\<open>li.string.strip() for li in ...\<close>: a list item without a string is an
  \<^verbatim>\<open>AttributeError\<close>.  \<open>login_failure\<close> is the \<^verbatim>\<open>else\<close> branch, which always
  raises.  In \<open>log_in\<close>, \<open>select_form\<close> returns with a form selected, so the branch for
  a browser with none is never taken.
\<close>

definition strip :: "string \<Rightarrow> string" where
  "strip s = rev (dropWhile is_space (rev (dropWhile is_space s)))"

fun stripped_strings :: "node list \<Rightarrow> error + string list" where
  "stripped_strings [] = Inr []"
| "stripped_strings (li # lis) =
     (case string_of li of
        None \<Rightarrow> Inl AttributeError
      | Some t \<Rightarrow>
          (case stripped_strings lis of
             Inl e \<Rightarrow> Inl e
           | Inr ts \<Rightarrow> Inr (strip t # ts)))"

definition login_failure :: "string \<Rightarrow> Response \<Rightarrow> error" where
  "login_failure username response =
     (case resp_content response of
        None \<Rightarrow> AttributeError
      | Some content \<Rightarrow>
          (case find_class ''validation-summary-errors'' content of
             None \<Rightarrow> AttributeError
           | Some error_div \<Rightarrow>
               (case stripped_strings (find_all ''li'' error_div) of
                  Inl e \<Rightarrow> e
                | Inr errors \<Rightarrow>
                    if length errors = 1 \<and>
                       errors ! 0 = ''Logon failure: unknown user name or bad password.''
                    then BadCredentialsError username
                    else BadResponseError ''home'')))"

definition log_in ::
    "library \<Rightarrow> world \<Rightarrow> Session \<Rightarrow> string \<Rightarrow> string \<Rightarrow> Session \<times> (error + unit)" where
  "log_in L W s username password =
     (case browse L W s (Some ''Account/Login'') ''login'' of
        (s1, Inl e) \<Rightarrow> (s1, Inl e)
      | (s1, Inr _) \<Rightarrow>
          (case select_form (browser s1) of
             Inl e \<Rightarrow> (s1, Inl e)
           | Inr b2 \<Rightarrow>
               (case selected b2 of
                  None \<Rightarrow> (s1\<lparr>browser := b2\<rparr>, Inl AttributeError)
                | Some f \<Rightarrow>
                    (case form_set L f ''UserName'' username of
                       Inl e \<Rightarrow> (s1\<lparr>browser := b2\<rparr>, Inl e)
                     | Inr f1 \<Rightarrow>
                         (case form_set L f1 ''Password'' password of
                            Inl e \<Rightarrow> (s1\<lparr>browser := b2\<lparr>selected := Some f1\<rparr>\<rparr>, Inl e)
                          | Inr f2 \<Rightarrow>
                              (case browse L W (s1\<lparr>browser := b2\<lparr>selected := Some f2\<rparr>\<rparr>)
                                      None ''home'' of
                                 (s2, Inl e) \<Rightarrow> (s2, Inl e)
                               | (s2, Inr response) \<Rightarrow>
                                   if resp_id response = ''home-index'' then (s2, Inr ())
                                   else (s2, Inl (login_failure username response))))))))"

text \<open>
  \<^verbatim>\<open>str.partition(sep)\<close>: the text before the first occurrence of the separator, the
  separator and the text after it; the whole string and two empty strings when the separator
  does not occur.
\<close>

fun split_first :: "string \<Rightarrow> string \<Rightarrow> string \<Rightarrow> (string \<times> string) option" where
  "split_first sep pre [] = None"
| "split_first sep pre (c # cs) =
     (if take (length sep) (c # cs) = sep then Some (pre, drop (length sep) (c # cs))
      else split_first sep (pre @ [c]) cs)"

definition str_partition :: "string \<Rightarrow> string \<Rightarrow> string \<times> string \<times> string" where
  "str_partition sep s =
     (case split_first sep [] s of
        None \<Rightarrow> (s, [], [])
      | Some (before, after) \<Rightarrow> (before, sep, after))"

text \<open>
  \<^verbatim>\<open>datetime.strptime(raw, '%a %d/%m/%Y').date()\<close>, for the weekday names of the C
  locale: an abbreviated weekday in any case, white space, a day of one or two digits from 1
  to 31, a slash, a month of one or two digits from 1 to 12, a slash, a year of four digits,
  and nothing after it.  The date must exist (the year at least 1, the day within the month);
  the weekday is read and not compared with the date.  Anything else is a \<^verbatim>\<open>ValueError\<close>.
\<close>

definition weekdays :: "string list" where
  "weekdays = [''mon'', ''tue'', ''wed'', ''thu'', ''fri'', ''sat'', ''sun'']"

definition digit_val :: "char \<Rightarrow> nat option" where
  "digit_val c = map_of (zip ''0123456789'' [0, 1, 2, 3, 4, 5, 6, 7, 8, 9]) c"

fun number_acc :: "nat \<Rightarrow> string \<Rightarrow> nat option" where
  "number_acc n [] = Some n"
| "number_acc n (c # cs) =
     (case digit_val c of None \<Rightarrow> None | Some d \<Rightarrow> number_acc (10 * n + d) cs)"

definition number :: "string \<Rightarrow> nat option" where
  "number s = (if s = [] then None else number_acc 0 s)"

definition is_leap :: "nat \<Rightarrow> bool" where
  "is_leap y = (if y mod 100 = 0 then y mod 400 = 0 else y mod 4 = 0)"

definition days_in_month :: "nat \<Rightarrow> nat \<Rightarrow> nat" where
  "days_in_month y m =
     (if m = 2 then (if is_leap y then 29 else 28)
      else if m \<in> set [4, 6, 9, 11] then 30 else 31)"

definition strptime :: "string \<Rightarrow> error + date" where
  "strptime s =
     (let r1 = drop 3 s; r2 = dropWhile is_space r1
      in if lower (take 3 s) \<in> set weekdays \<and> r2 \<noteq> r1
         then
           (case split_first ''/'' [] r2 of
              None \<Rightarrow> Inl ValueError
            | Some (d, r3) \<Rightarrow>
                (case split_first ''/'' [] r3 of
                   None \<Rightarrow> Inl ValueError
                 | Some (m, y) \<Rightarrow>
                     (case (number d, number m, number y) of
                        (Some dd, Some mm, Some yy) \<Rightarrow>
                          if length d \<le> 2 \<and> length m \<le> 2 \<and> length y = 4 \<and>
                             1 \<le> mm \<and> mm \<le> 12 \<and> 1 \<le> yy \<and>
                             1 \<le> dd \<and> dd \<le> days_in_month yy mm
                          then Inr \<lparr>year = yy, month = mm, day = dd\<rparr>
                          else Inl ValueError
                      | _ \<Rightarrow> Inl ValueError)))
         else Inl ValueError)"

text \<open>
  \<^verbatim>\<open>Session.get_roster\<close>.  \<open>roster_loop\<close> is the \<^verbatim>\<open>for\<close> loop over the list items,
  with the loop variables \<^verbatim>\<open>date\<close>, \<^verbatim>\<open>title\<close> and \<^verbatim>\<open>shifts\<close> as arguments;
  \<open>detail_of\<close> is \<^verbatim>\<open>tuple([p.string for p in li.find('table').find_all('p')])\<close>, an
  \<^verbatim>\<open>AttributeError\<close> when the item has no table.
\<close>

definition is_divider :: "node \<Rightarrow> bool" where
  "is_divider li = (map_of (attrs li) ''data-role'' = Some ''list-divider'')"

definition detail_of :: "node \<Rightarrow> error + string option list" where
  "detail_of li =
     (case find_name ''table'' li of
        None \<Rightarrow> Inl AttributeError
      | Some table \<Rightarrow> Inr (map string_of (find_all ''p'' table)))"

fun roster_loop ::
    "date option \<Rightarrow> string option \<Rightarrow> Item list \<Rightarrow> node list \<Rightarrow> error + Item list" where
  "roster_loop date title shifts [] = Inr shifts"
| "roster_loop date title shifts (li # lis) =
     (if is_divider li
      then (case string_of li of
              None \<Rightarrow> Inl AttributeError
            | Some t \<Rightarrow>
                (case str_partition '' - '' t of
                   (raw_date, _, title') \<Rightarrow>
                     (case strptime raw_date of
                        Inl e \<Rightarrow> Inl e
                      | Inr d \<Rightarrow> roster_loop (Some d) (Some title') shifts lis)))
      else (case detail_of li of
              Inl e \<Rightarrow> Inl e
            | Inr detail \<Rightarrow>
                roster_loop date title
                  (shifts @ [\<lparr>item_date = date, item_title = title, item_detail = detail\<rparr>])
                  lis))"

definition parse_roster :: "Response \<Rightarrow> error + Snapshot" where
  "parse_roster response =
     (if resp_id response = ''account-login'' then Inl NotLoggedInError
      else
        (case resp_content response of
           None \<Rightarrow> Inl AttributeError
         | Some content \<Rightarrow>
             (case find_attrs ''data-role'' ''listview'' content of
                None \<Rightarrow> Inl AttributeError
              | Some list_view \<Rightarrow>
                  (case roster_loop None None [] (find_all_children ''li'' list_view) of
                     Inl e \<Rightarrow> Inl e
                   | Inr shifts \<Rightarrow>
                       Inr \<lparr>snap_time = resp_time response, snap_items = shifts\<rparr>))))"

definition get_roster :: "library \<Rightarrow> world \<Rightarrow> Session \<Rightarrow> Session \<times> (error + Snapshot)" where
  "get_roster L W s =
     (case browse L W s (Some ''Roster/List?pageNo=1&row=1'') ''roster'' of
        (s1, Inl e) \<Rightarrow> (s1, Inl e)
      | (s1, Inr response) \<Rightarrow> (s1, parse_roster response))"

text \<open>\<^verbatim>\<open>Session.log_out\<close>\<close>

definition log_out :: "library \<Rightarrow> world \<Rightarrow> Session \<Rightarrow> Session \<times> (error + unit)" where
  "log_out L W s =
     (if is_logged_in s
      then (case browse L W s (Some ''Account/LogOff'') ''logout'' of
              (s1, Inl e) \<Rightarrow> (s1, Inl e)
            | (s1, Inr _) \<Rightarrow> (s1, Inr ()))
      else (s, Inr ()))"

text \<open>
  \<^verbatim>\<open>Session.save_logs\<close>.  The result is the list of the files written, in the order
  of writing, each with the directory, the file name and the text handed to
  \<^verbatim>\<open>writelines\<close>.
\<close>

definition nl :: string where
  "nl = [CHR 0x0A]"

definition str_reason :: "string option \<Rightarrow> string" where
  "str_reason r = (case r of None \<Rightarrow> ''None'' | Some t \<Rightarrow> t)"

definition header_lines :: "(string \<times> string) list \<Rightarrow> string list" where
  "header_lines hs = map (\<lambda>(key, val). key @ '': '' @ val @ nl) hs"

definition log_filename :: "LogEntry \<Rightarrow> nat \<Rightarrow> string" where
  "log_filename entry index =
     strftime (entry_time entry) @ ''-'' @ entry_purpose entry @ ''-'' @ str_nat index @ ''.txt''"

definition log_lines :: "LogEntry \<Rightarrow> exchange \<Rightarrow> string list" where
  "log_lines entry response =
     [str_datetime (entry_time entry),
      nl,
      req_method response @ '' '' @ req_url response @ nl,
      str_nat (status_code response) @ '' '' @ str_reason (reason response) @ nl,
      nl]
     @ header_lines (headers response)
     @ [nl,
        body_text response]"

definition save_logs :: "Session \<Rightarrow> string \<Rightarrow> (string \<times> string \<times> string) list" where
  "save_logs s directory =
     concat (map (\<lambda>entry.
        map (\<lambda>(index, response).
               (directory, log_filename entry index, concat (log_lines entry response)))
            (enumerate 0 (history (entry_response entry) @ [final (entry_response entry)])))
        (log s))"

text \<open>
  \<^verbatim>\<open>Session.__exit__\<close>, which does not use its arguments, and the \<^verbatim>\<open>with\<close>
  statement around a block: \<^verbatim>\<open>__enter__\<close> returns the session, the block runs,
  \<^verbatim>\<open>__exit__\<close> is called with the exception of the block if there is one, and that
  exception is raised again unless \<^verbatim>\<open>__exit__\<close> returns true.  An exception of
  \<^verbatim>\<open>__exit__\<close> itself propagates.
\<close>

definition session_exit ::
    "library \<Rightarrow> world \<Rightarrow> Session \<Rightarrow> error option \<Rightarrow> Session \<times> (error + bool)" where
  "session_exit L W s exc =
     (case log_out L W s of
        (s1, Inl e) \<Rightarrow> (s1, Inl e)
      | (s1, Inr _) \<Rightarrow> (s1, Inr False))"

definition with_session ::
    "library \<Rightarrow> world \<Rightarrow> Session \<Rightarrow> (Session \<Rightarrow> Session \<times> (error + 'a)) \<Rightarrow>
     Session \<times> (error + 'a option)" where
  "with_session L W s block =
     (case block s of
        (s1, r) \<Rightarrow>
          (case session_exit L W s1 (case r of Inl e \<Rightarrow> Some e | Inr _ \<Rightarrow> None) of
             (s2, Inl e2) \<Rightarrow> (s2, Inl e2)
           | (s2, Inr suppress) \<Rightarrow>
               (case r of
                  Inl e \<Rightarrow> (if suppress then (s2, Inr None) else (s2, Inl e))
                | Inr v \<Rightarrow> (s2, Inr (Some v)))))"

text \<open>
  \<^verbatim>\<open>Snapshot.__len__\<close>, \<^verbatim>\<open>Snapshot.__getitem__\<close> at an integer index (a negative
  index counts from the end, an index out of range raises \<^verbatim>\<open>IndexError\<close>) and
  \<^verbatim>\<open>Snapshot.__iter__\<close>, as the list of the items in the order the iterator yields them.
\<close>

definition snapshot_len :: "Snapshot \<Rightarrow> nat" where
  "snapshot_len sn = length (snap_items sn)"

definition snapshot_getitem :: "Snapshot \<Rightarrow> int \<Rightarrow> error + Item" where
  "snapshot_getitem sn index =
     (let n = int (length (snap_items sn));
          j = (if index < 0 then n + index else index)
      in if 0 \<le> j \<and> j < n then Inr (snap_items sn ! nat j) else Inl IndexError)"

definition snapshot_iter :: "Snapshot \<Rightarrow> Item list" where
  "snapshot_iter sn = snap_items sn"

section \<open>Pages and worlds of the examples\<close>

text \<open>
  Small pages in the shape of the portal's, the base URL of the tests, and worlds that
  answer the successive requests of a session with a given list of responses.
\<close>

definition test_url :: string where
  "test_url = ''http://example.com/RosterOnProd/Mobile''"

definition time0 :: datetime where
  "time0 = \<lparr>dt_date = \<lparr>year = 2019, month = 6, day = 10\<rparr>,
            hour = 4, minute = 28, second = 37, microsecond = 160169\<rparr>"

definition time1 :: datetime where
  "time1 = \<lparr>dt_date = \<lparr>year = 2019, month = 6, day = 10\<rparr>,
            hour = 4, minute = 28, second = 38, microsecond = 0\<rparr>"

definition document :: "node list \<Rightarrow> node" where
  "document body =
     Tag ''[document]'' [] [Tag ''html'' [] [Tag ''head'' [] [], Tag ''body'' [] body]]"

definition content_div :: "node list \<Rightarrow> node" where
  "content_div inner = Tag ''div'' [(''data-role'', ''content'')] inner"

definition page_of :: "string \<Rightarrow> node list \<Rightarrow> node" where
  "page_of ident inner =
     document [Tag ''div'' [(''data-role'', ''page''), (''id'', ident)]
                 [Tag ''div'' [(''data-role'', ''header'')] [Tag ''h1'' [] [Text ''RosterOn'']],
                  content_div inner]]"

definition login_form :: node where
  "login_form =
     Tag ''form'' [(''action'', ''/RosterOnProd/Mobile/Account/Login''), (''method'', ''post'')]
       [Tag ''input'' [(''id'', ''UserName''), (''name'', ''UserName''), (''type'', ''text'')] [],
        Tag ''input'' [(''id'', ''Password''), (''name'', ''Password''), (''type'', ''password'')] [],
        Tag ''input'' [(''type'', ''submit''), (''value'', ''Log In'')] []]"

definition login_html :: node where
  "login_html = page_of ''account-login'' [login_form]"

definition home_html :: node where
  "home_html = page_of ''home-index'' [Tag ''p'' [] [Text ''Welcome'']]"

definition badcreds_html :: node where
  "badcreds_html =
     page_of ''account-login''
       [Tag ''div'' [(''class'', ''validation-summary-errors'')]
          [Tag ''ul'' []
             [Tag ''li'' [] [Text ''Logon failure: unknown user name or bad password.'']]],
        login_form]"

definition roster_row :: node where
  "roster_row =
     Tag ''li'' []
       [Tag ''a'' [(''href'', ''#'')]
          [Tag ''table'' []
             [Tag ''tr'' []
                [Tag ''td'' [] [Tag ''p'' [] [Text ''10:30 - 18:06''], Tag ''p'' [] []],
                 Tag ''td'' [] [Tag ''p'' [] [Text ''XYZ''], Tag ''p'' [] [Text ''Assistant'']]]]]]"

definition roster_divider :: node where
  "roster_divider =
     Tag ''li'' [(''data-role'', ''list-divider'')]
       [Text ''Tue 11/06/2019 - ABCDE - Melbourne Office'']"

definition roster_of :: "node list \<Rightarrow> node" where
  "roster_of lis = page_of ''roster-list'' [Tag ''ul'' [(''data-role'', ''listview'')] lis]"

definition roster_html :: node where
  "roster_html = roster_of [roster_divider, roster_row]"

definition ok_response :: "string \<Rightarrow> string \<Rightarrow> (string \<times> string) list \<Rightarrow> node \<Rightarrow> http_response" where
  "ok_response method path hs doc =
     \<lparr>final = \<lparr>req_method = method, req_url = test_url @ ''/'' @ path, status_code = 200,
                reason = None, headers = hs, body_text = ''<!DOCTYPE html>''\<rparr>,
      history = [], soup = Some doc\<rparr>"

definition served :: "(cookie list \<times> http_response option) list \<Rightarrow> world" where
  "served steps n =
     (if n < length steps
      then \<lparr>clock = time0, jar_after = fst (steps ! n), reply = snd (steps ! n)\<rparr>
      else \<lparr>clock = time0, jar_after = [], reply = None\<rparr>)"

definition lib0 :: library where
  "lib0 =
     \<lparr>parsedate_to_datetime =
        (\<lambda>v. if v = ''Mon, 10 Jun 2019 04:28:38 GMT'' then Inr time1 else Inl ValueError),
      form_set = (\<lambda>f name val. Inr (fst f, snd f @ [(name, val)]))\<rparr>"

definition new_session :: Session where
  "new_session =
     \<lparr>url = test_url,
      browser = \<lparr>cookiejar = [], page = None, selected = None, sent = []\<rparr>,
      log = []\<rparr>"

text \<open>Three consecutive items of one date and title, as a roster of three shifts gives them.\<close>

definition three_items :: "Item list" where
  "three_items =
     [\<lparr>item_date = Some \<lparr>year = 2019, month = 6, day = 11\<rparr>,
       item_title = Some ''ABCDE - Melbourne Office'',
       item_detail = [Some ''10:30 - 18:06'', None, Some ''XYZ'', Some ''Assistant'']\<rparr>,
      \<lparr>item_date = Some \<lparr>year = 2019, month = 6, day = 11\<rparr>,
       item_title = Some ''ABCDE - Melbourne Office'',
       item_detail = [Some ''19:00 - 21:00'', None, Some ''XYZ'', Some ''Assistant'']\<rparr>,
      \<lparr>item_date = Some \<lparr>year = 2019, month = 6, day = 11\<rparr>,
       item_title = Some ''ABCDE - Melbourne Office'',
       item_detail = [Some ''22:00 - 23:30'', None, Some ''XYZ'', Some ''Supervisor'']\<rparr>]"

text \<open>
  Responses to single requests: the login page in answer to the roster request (what the
  portal sends to a client that is not logged in), a page whose container has the login
  identifier and no content container, an error page outside the portal's template, and the
  login page in answer to the log-off request.
\<close>

definition roster_path :: string where
  "roster_path = ''Roster/List?pageNo=1&row=1''"

definition bare_login_html :: node where
  "bare_login_html =
     document [Tag ''div'' [(''data-role'', ''page''), (''id'', ''account-login'')] []]"

definition unexpected_html :: node where
  "unexpected_html = document [Tag ''h1'' [] [Text ''Service Unavailable'']]"

definition world_not_logged_in :: world where
  "world_not_logged_in = served [([], Some (ok_response ''GET'' roster_path [] login_html))]"

definition world_bare_login :: world where
  "world_bare_login = served [([], Some (ok_response ''GET'' roster_path [] bare_login_html))]"

definition world_unexpected :: world where
  "world_unexpected = served [([], Some (ok_response ''GET'' roster_path [] unexpected_html))]"

definition world_down :: world where
  "world_down = served [([], None)]"

definition world_log_off :: world where
  "world_log_off = served [([], Some (ok_response ''GET'' ''Account/LogOff'' [] login_html))]"

definition logged_in_session :: Session where
  "logged_in_session =
     \<lparr>url = test_url,
      browser = \<lparr>cookiejar = [(''.ASPXAUTH'', Some ''XXX'')], page = Some home_html,
                 selected = None, sent = []\<rparr>,
      log = []\<rparr>"

text \<open>
  The roster page of the end-to-end example, served with a \<^verbatim>\<open>Date\<close> header, and a
  roster page whose list starts with a data row, before any divider.
\<close>

definition date_header :: "(string \<times> string) list" where
  "date_header = [(''Date'', ''Mon, 10 Jun 2019 04:28:38 GMT'')]"

definition world_roster :: world where
  "world_roster =
     served [([(''.ASPXAUTH'', Some ''XXX'')],
              Some (ok_response ''GET'' roster_path date_header roster_html))]"

definition world_headless_roster :: world where
  "world_headless_roster =
     served [([(''.ASPXAUTH'', Some ''XXX'')],
              Some (ok_response ''GET'' roster_path date_header
                      (roster_of [roster_row, roster_divider, roster_row])))]"

definition row_detail :: "string option list" where
  "row_detail = [Some ''10:30 - 18:06'', None, Some ''XYZ'', Some ''Assistant'']"

text \<open>
  A session whose log holds the exchange of one navigation to the login page, and the text
  of a log file as the specification words it, with the headers directly after the status
  line.
\<close>

definition login_entry :: LogEntry where
  "login_entry =
     \<lparr>entry_time = time0,
      entry_response = ok_response ''GET'' ''Account/Login'' date_header login_html,
      entry_purpose = ''login''\<rparr>"

definition logged_session :: Session where
  "logged_session = new_session\<lparr>log := [login_entry]\<rparr>"

definition spec_log_text :: "LogEntry \<Rightarrow> exchange \<Rightarrow> string" where
  "spec_log_text entry response =
     str_datetime (entry_time entry) @ nl @
     req_method response @ '' '' @ req_url response @ nl @
     str_nat (status_code response) @ '' '' @ str_reason (reason response) @ nl @
     concat (header_lines (headers response)) @
     nl @
     body_text response"

text \<open>
  A page whose page container has no \<^verbatim>\<open>id\<close>, and the worlds of two login attempts: one
  answered with the page of rejected credentials, one answered with the plain login page
  again.
\<close>

definition anonymous_html :: node where
  "anonymous_html =
     document [Tag ''div'' [(''data-role'', ''page'')] [content_div [login_form]]]"

definition world_anonymous :: world where
  "world_anonymous = served [([], Some (ok_response ''GET'' roster_path [] anonymous_html))]"

definition world_bad_credentials :: world where
  "world_bad_credentials =
     served [([], Some (ok_response ''GET'' ''Account/Login'' [] login_html)),
             ([], Some (ok_response ''POST'' ''Account/Login'' [] badcreds_html))]"

definition world_login_again :: world where
  "world_login_again =
     served [([], Some (ok_response ''GET'' ''Account/Login'' [] login_html)),
             ([], Some (ok_response ''POST'' ''Account/Login'' [] login_html))]"

section \<open>Evaluation and helper lemmas\<close>

lemmas page_defs = document_def content_div_def page_of_def login_form_def login_html_def
  home_html_def badcreds_html_def roster_row_def roster_divider_def roster_of_def roster_html_def

lemmas world_defs = ok_response_def served_def lib0_def new_session_def test_url_def
  time0_def time1_def

lemmas tree_defs = getitem_def first_of_def has_attr_def find_attrs_def named_def find_all_def
  find_name_def find_all_children_def has_class_def find_class_def tokens_def is_space_def

lemmas browse_defs = browse_def send_def browser_open_def submit_selected_def classify_def
  except_clause_def header_def lower_def lower_char_def Let_def



text \<open>
  A run of items that are not dividers adds one item each, with the date and title the loop
  holds at that point, and leaves the date and title as they are.
\<close>

lemma roster_loop_rows:
  "\<forall>(r, dt) \<in> set rds. \<not> is_divider r \<and> detail_of r = Inr dt \<Longrightarrow>
   roster_loop date title shifts (map fst rds @ rest) =
   roster_loop date title
     (shifts @ map (\<lambda>(r, dt). \<lparr>item_date = date, item_title = title, item_detail = dt\<rparr>) rds)
     rest"
proof (induction rds arbitrary: shifts)
  case Nil
  then show ?case by simp
next
  case (Cons a rds)
  obtain r dt where a: "a = (r, dt)" by (cases a)
  from Cons.prems a have h: "\<not> is_divider r" "detail_of r = Inr dt" by auto
  from Cons.prems have rest: "\<forall>(r, dt) \<in> set rds. \<not> is_divider r \<and> detail_of r = Inr dt"
    by simp
  show ?case using Cons.IH[OF rest] h a by simp
qed

text \<open>The loop only ever appends to the items it has.\<close>

lemma roster_loop_prefix:
  "roster_loop date title shifts lis = Inr res \<Longrightarrow> take (length shifts) res = shifts"
proof (induction lis arbitrary: date title shifts)
  case Nil
  then show ?case by simp
next
  case (Cons li lis)
  show ?case
  proof (cases "is_divider li")
    case True
    with Cons.prems Cons.IH show ?thesis
      by (auto split: option.splits prod.splits sum.splits)
  next
    case False
    with Cons.prems obtain dt where
      r: "roster_loop date title
            (shifts @ [\<lparr>item_date = date, item_title = title, item_detail = dt\<rparr>]) lis = Inr res"
      by (auto split: sum.splits)
    from Cons.IH[OF r]
    have "take (length shifts + 1) res =
          shifts @ [\<lparr>item_date = date, item_title = title, item_detail = dt\<rparr>]"
      by simp
    then have "take (length shifts) (take (length shifts + 1) res) = shifts" by simp
    then show ?thesis by (simp add: min_def)
  qed
qed

section \<open>The claims\<close>

text \<open>
  C7.  When the cookie store does not hold the auth cookie, \<open>log_out\<close> returns without an
  error and with the session it was given: no request is added to those the browser has
  sent, nothing is added to the log, and the cookies, the page and the selected form are
  the same.
\<close>

theorem log_out_logged_out:
  "\<not> is_logged_in s \<Longrightarrow>
   log_out L W s = (s, Inr ()) \<and>
   sent (browser (fst (log_out L W s))) = sent (browser s) \<and>
   log (fst (log_out L W s)) = log s"
  by (simp add: log_out_def)

theorem log_out_logged_out_witness:
  "\<not> is_logged_in new_session \<and>
   log_out lib0 (served []) new_session = (new_session, Inr ()) \<and>
   sent (browser (fst (log_out lib0 (served []) new_session))) = [] \<and>
   log (fst (log_out lib0 (served []) new_session)) = []"
proof -
  have h: "\<not> is_logged_in new_session"
    by (simp add: is_logged_in_def jar_contains_def new_session_def)
  from log_out_logged_out[OF h, of lib0 "served []"] h show ?thesis
    by (simp add: new_session_def)
qed

text \<open>
  C8.  A snapshot built from a sequence of items has the length of the sequence, gives the
  \<open>i\<close>-th item at every index \<open>i\<close> below the length, and iterates over the items in
  the order of the sequence.
\<close>

theorem snapshot_sequence:
  "snapshot_len \<lparr>snap_time = t, snap_items = items\<rparr> = length items \<and>
   (\<forall>i < length items.
      snapshot_getitem \<lparr>snap_time = t, snap_items = items\<rparr> (int i) = Inr (items ! i)) \<and>
   snapshot_iter \<lparr>snap_time = t, snap_items = items\<rparr> = items"
  by (simp add: snapshot_len_def snapshot_getitem_def snapshot_iter_def)

theorem snapshot_sequence_witness:
  "snapshot_len \<lparr>snap_time = time0, snap_items = three_items\<rparr> = 3 \<and>
   snapshot_getitem \<lparr>snap_time = time0, snap_items = three_items\<rparr> 0 = Inr (three_items ! 0) \<and>
   snapshot_getitem \<lparr>snap_time = time0, snap_items = three_items\<rparr> 1 = Inr (three_items ! 1) \<and>
   snapshot_getitem \<lparr>snap_time = time0, snap_items = three_items\<rparr> 2 = Inr (three_items ! 2) \<and>
   snapshot_iter \<lparr>snap_time = time0, snap_items = three_items\<rparr> =
     [three_items ! 0, three_items ! 1, three_items ! 2]"
proof -
  have len: "length three_items = 3" by (simp add: three_items_def)
  have l: "three_items = [three_items ! 0, three_items ! 1, three_items ! 2]"
    by (simp add: three_items_def)
  note s = snapshot_sequence[of time0 three_items]
  from s len have g:
    "\<And>i. i < 3 \<Longrightarrow>
       snapshot_getitem \<lparr>snap_time = time0, snap_items = three_items\<rparr> (int i) =
       Inr (three_items ! i)"
    by simp
  have g0: "snapshot_getitem \<lparr>snap_time = time0, snap_items = three_items\<rparr> 0 =
              Inr (three_items ! 0)" using g[of 0] by simp
  have g1: "snapshot_getitem \<lparr>snap_time = time0, snap_items = three_items\<rparr> 1 =
              Inr (three_items ! 1)" using g[of 1] by simp
  have g2: "snapshot_getitem \<lparr>snap_time = time0, snap_items = three_items\<rparr> 2 =
              Inr (three_items ! 2)" using g[of 2] by simp
  from s len l g0 g1 g2 show ?thesis by simp
qed

text \<open>
  C5.  When the response that \<open>browse\<close> hands to \<open>get_roster\<close> carries the identifier of
  the login page, \<open>get_roster\<close> raises \<open>NotLoggedInError\<close> and returns no snapshot,
  whatever the content of the response is.
\<close>

theorem get_roster_login_page:
  "browse L W s (Some ''Roster/List?pageNo=1&row=1'') ''roster'' = (s1, Inr response) \<Longrightarrow>
   resp_id response = ''account-login'' \<Longrightarrow>
   get_roster L W s = (s1, Inl NotLoggedInError)"
  by (simp add: get_roster_def parse_roster_def)

theorem get_roster_login_page_witness:
  "snd (browse lib0 world_not_logged_in new_session (Some ''Roster/List?pageNo=1&row=1'') ''roster'')
     = Inr \<lparr>resp_time = time0, resp_id = ''account-login'',
            resp_content = Some (content_div [login_form])\<rparr> \<and>
   snd (get_roster lib0 world_not_logged_in new_session) = Inl NotLoggedInError \<and>
   snd (browse lib0 world_bare_login new_session (Some ''Roster/List?pageNo=1&row=1'') ''roster'')
     = Inr \<lparr>resp_time = time0, resp_id = ''account-login'', resp_content = None\<rparr> \<and>
   snd (get_roster lib0 world_bare_login new_session) = Inl NotLoggedInError"
proof -
  let ?p = "Some ''Roster/List?pageNo=1&row=1''"
  have b1: "snd (browse lib0 world_not_logged_in new_session ?p ''roster'')
     = Inr \<lparr>resp_time = time0, resp_id = ''account-login'',
            resp_content = Some (content_div [login_form])\<rparr>"
    by (simp add: world_not_logged_in_def roster_path_def page_defs world_defs tree_defs
        browse_defs)
  have b2: "snd (browse lib0 world_bare_login new_session ?p ''roster'')
     = Inr \<lparr>resp_time = time0, resp_id = ''account-login'', resp_content = None\<rparr>"
    by (simp add: world_bare_login_def bare_login_html_def roster_path_def page_defs world_defs
        tree_defs browse_defs)
  from b1 have e1: "browse lib0 world_not_logged_in new_session ?p ''roster'' =
      (fst (browse lib0 world_not_logged_in new_session ?p ''roster''),
       Inr \<lparr>resp_time = time0, resp_id = ''account-login'',
            resp_content = Some (content_div [login_form])\<rparr>)"
    by (simp add: prod_eq_iff)
  from b2 have e2: "browse lib0 world_bare_login new_session ?p ''roster'' =
      (fst (browse lib0 world_bare_login new_session ?p ''roster''),
       Inr \<lparr>resp_time = time0, resp_id = ''account-login'', resp_content = None\<rparr>)"
    by (simp add: prod_eq_iff)
  have g1: "snd (get_roster lib0 world_not_logged_in new_session) = Inl NotLoggedInError"
    using get_roster_login_page[OF e1] by simp
  have g2: "snd (get_roster lib0 world_bare_login new_session) = Inl NotLoggedInError"
    using get_roster_login_page[OF e2] by simp
  from b1 b2 g1 g2 show ?thesis by simp
qed

text \<open>
  C9.  A navigation (a non-empty URL fragment) or a submission of the selected form that
  gets a response appends exactly one entry to the log: the time read before the request,
  the response and the purpose, whatever \<open>browse\<close> then returns or raises.  When the
  HTTP library raises instead, the log is as it was and \<open>browse\<close> raises
  \<open>BadResponseError\<close> with the purpose.
\<close>

theorem browse_log:
  "url_fragment = Some (c # cs) \<or> selected (browser s) = Some f \<Longrightarrow>
   log (fst (browse L W s url_fragment purpose)) =
     (case reply (W (length (sent (browser s)))) of
        None \<Rightarrow> log s
      | Some r \<Rightarrow>
          log s @ [\<lparr>entry_time = clock (W (length (sent (browser s)))), entry_response = r,
                    entry_purpose = purpose\<rparr>]) \<and>
   (reply (W (length (sent (browser s)))) = None \<longrightarrow>
      snd (browse L W s url_fragment purpose) = Inl (BadResponseError purpose))"
  by (cases url_fragment; cases "reply (W (length (sent (browser s))))")
     (auto simp: browse_def browser_open_def submit_selected_def send_def Let_def
           split: option.splits sum.splits prod.splits list.splits)

theorem browse_log_witness:
  "snd (browse lib0 world_unexpected new_session (Some roster_path) ''roster'') =
     Inl (BadResponseError ''roster'') \<and>
   log (fst (browse lib0 world_unexpected new_session (Some roster_path) ''roster'')) =
     [\<lparr>entry_time = time0,
       entry_response = ok_response ''GET'' roster_path [] unexpected_html,
       entry_purpose = ''roster''\<rparr>] \<and>
   length (save_logs (fst (browse lib0 world_unexpected new_session (Some roster_path) ''roster''))
             ''logs'') = 1 \<and>
   snd (browse lib0 world_down new_session (Some roster_path) ''roster'') =
     Inl (BadResponseError ''roster'') \<and>
   log (fst (browse lib0 world_down new_session (Some roster_path) ''roster'')) = []"
proof -
  have p: "Some roster_path = Some (CHR ''R'' # ''oster/List?pageNo=1&row=1'') \<or>
           selected (browser new_session) = Some (Text [], [])"
    by (simp add: roster_path_def)
  have r1: "reply (world_unexpected (length (sent (browser new_session)))) =
            Some (ok_response ''GET'' roster_path [] unexpected_html)"
    by (simp add: world_unexpected_def served_def new_session_def)
  have c1: "clock (world_unexpected (length (sent (browser new_session)))) = time0"
    by (simp add: world_unexpected_def served_def new_session_def)
  have r2: "reply (world_down (length (sent (browser new_session)))) = None"
    by (simp add: world_down_def served_def new_session_def)
  have e: "log new_session = []" by (simp add: new_session_def)
  have l1: "log (fst (browse lib0 world_unexpected new_session (Some roster_path) ''roster'')) =
     [\<lparr>entry_time = time0,
       entry_response = ok_response ''GET'' roster_path [] unexpected_html,
       entry_purpose = ''roster''\<rparr>]"
    using browse_log[OF p, of lib0 world_unexpected "''roster''"] r1 c1 e by simp
  have l2: "snd (browse lib0 world_down new_session (Some roster_path) ''roster'') =
              Inl (BadResponseError ''roster'') \<and>
            log (fst (browse lib0 world_down new_session (Some roster_path) ''roster'')) = []"
    using browse_log[OF p, of lib0 world_down "''roster''"] r2 e by simp
  have s1: "snd (browse lib0 world_unexpected new_session (Some roster_path) ''roster'') =
     Inl (BadResponseError ''roster'')"
    by (simp add: world_unexpected_def unexpected_html_def roster_path_def page_defs world_defs
        tree_defs browse_defs)
  have f1: "length (save_logs (fst (browse lib0 world_unexpected new_session (Some roster_path)
              ''roster'')) ''logs'') = 1"
    by (simp add: save_logs_def l1 ok_response_def)
  from s1 l1 f1 l2 show ?thesis by simp
qed

text \<open>
  C6.  A \<open>with\<close> block over a session ends, on every path, in the state that \<open>log_out\<close>
  leaves from the state at the end of the block; when a user is logged in at that point,
  the log-off request is the one request added.  The exit handler never returns true: when
  \<open>log_out\<close> returns, an error of the block is raised again (and the value of a block that
  completed is kept); when \<open>log_out\<close> raises, its error is raised.
\<close>

theorem with_session_logs_out:
  "block s = (s1, r) \<Longrightarrow>
   fst (with_session L W s block) = fst (log_out L W s1) \<and>
   snd (with_session L W s block) =
     (case snd (log_out L W s1) of
        Inl e2 \<Rightarrow> Inl e2
      | Inr _ \<Rightarrow> (case r of Inl e \<Rightarrow> Inl e | Inr v \<Rightarrow> Inr (Some v))) \<and>
   snd (session_exit L W s1 exc) \<noteq> Inr True \<and>
   (is_logged_in s1 \<longrightarrow>
      sent (browser (fst (with_session L W s block))) =
        sent (browser s1) @ [Open_url (url s1 @ ''/Account/LogOff'')])"
proof -
  assume b: "block s = (s1, r)"
  obtain s2 r2 where lo: "log_out L W s1 = (s2, r2)" by (cases "log_out L W s1")
  have ex: "session_exit L W s1 exc = (s2, case r2 of Inl e \<Rightarrow> Inl e | Inr _ \<Rightarrow> Inr False)"
    for exc
    by (simp add: session_exit_def lo split: sum.splits)
  have st: "fst (with_session L W s block) = s2"
    by (simp add: with_session_def b ex split: sum.splits)
  have res: "snd (with_session L W s block) =
     (case r2 of Inl e2 \<Rightarrow> Inl e2
      | Inr _ \<Rightarrow> (case r of Inl e \<Rightarrow> Inl e | Inr v \<Rightarrow> Inr (Some v)))"
    by (simp add: with_session_def b ex split: sum.splits)
  have nos: "snd (session_exit L W s1 exc) \<noteq> Inr True"
    by (simp add: ex split: sum.splits)
  have req: "sent (browser s2) = sent (browser s1) @ [Open_url (url s1 @ ''/Account/LogOff'')]"
    if "is_logged_in s1"
    using that lo
    by (auto simp: log_out_def browse_def browser_open_def send_def Let_def
             split: option.splits sum.splits prod.splits if_splits)
  from st res nos req lo show ?thesis by simp
qed

theorem with_session_logs_out_witness:
  "is_logged_in logged_in_session \<and>
   snd (with_session lib0 world_log_off logged_in_session (\<lambda>s. (s, Inl ValueError :: error + unit)))
     = Inl ValueError \<and>
   sent (browser (fst (with_session lib0 world_log_off logged_in_session
                         (\<lambda>s. (s, Inl ValueError :: error + unit))))) =
     [Open_url (test_url @ ''/Account/LogOff'')] \<and>
   snd (with_session lib0 world_log_off logged_in_session (\<lambda>s. (s, Inr (5 :: nat))))
     = Inr (Some 5) \<and>
   sent (browser (fst (with_session lib0 world_log_off logged_in_session
                         (\<lambda>s. (s, Inr (5 :: nat)))))) =
     [Open_url (test_url @ ''/Account/LogOff'')]"
proof -
  have li: "is_logged_in logged_in_session"
    by (simp add: is_logged_in_def jar_contains_def logged_in_session_def)
  have lo: "snd (log_out lib0 world_log_off logged_in_session) = Inr ()"
    by (simp add: log_out_def li)
       (simp add: logged_in_session_def world_log_off_def page_defs world_defs tree_defs
          browse_defs split: prod.splits)
  have u: "url logged_in_session = test_url" "sent (browser logged_in_session) = []"
    by (simp_all add: logged_in_session_def)
  note t1 = with_session_logs_out[where block = "\<lambda>s. (s, Inl ValueError :: error + unit)"
         and s = logged_in_session and ?s1.0 = logged_in_session and r = "Inl ValueError"
         and L = lib0 and W = world_log_off and exc = "Some ValueError", OF refl]
  note t2 = with_session_logs_out[where block = "\<lambda>s. (s, Inr (5 :: nat) :: error + nat)"
         and s = logged_in_session and ?s1.0 = logged_in_session and r = "Inr 5"
         and L = lib0 and W = world_log_off and exc = None, OF refl]
  have w1: "snd (with_session lib0 world_log_off logged_in_session
                  (\<lambda>s. (s, Inl ValueError :: error + unit))) = Inl ValueError"
    using t1[THEN conjunct2, THEN conjunct1] lo by simp
  have w2: "sent (browser (fst (with_session lib0 world_log_off logged_in_session
                         (\<lambda>s. (s, Inl ValueError :: error + unit))))) =
              [Open_url (test_url @ ''/Account/LogOff'')]"
    using t1[THEN conjunct2, THEN conjunct2, THEN conjunct2] li u by simp
  have w3: "snd (with_session lib0 world_log_off logged_in_session (\<lambda>s. (s, Inr (5 :: nat))))
              = Inr (Some 5)"
    using t2[THEN conjunct2, THEN conjunct1] lo by simp
  have w4: "sent (browser (fst (with_session lib0 world_log_off logged_in_session
                         (\<lambda>s. (s, Inr (5 :: nat)))))) =
              [Open_url (test_url @ ''/Account/LogOff'')]"
    using t2[THEN conjunct2, THEN conjunct2, THEN conjunct2] li u by simp
  from li w1 w2 w3 w4 show ?thesis by simp
qed

lemmas roster_defs = world_roster_def world_headless_roster_def date_header_def roster_path_def
  logged_in_session_def

lemma detail_of_roster_row: "detail_of roster_row = Inr row_detail"
  by (simp add: detail_of_def roster_row_def row_detail_def tree_defs)

lemma is_divider_fixtures: "is_divider roster_divider" "\<not> is_divider roster_row"
  by (simp_all add: is_divider_def roster_divider_def roster_row_def)

lemma strptime_example: "strptime ''Tue 11/06/2019'' = Inr \<lparr>year = 2019, month = 6, day = 11\<rparr>"
  by code_simp



text \<open>
  C10.  When the list of the roster page starts with items that are not dividers, and the
  loop gets through the rest of the list, \<open>get_roster\<close> returns a snapshot that starts
  with one item for each of them, with \<open>None\<close> as its date and \<open>None\<close> as its title.
\<close>

theorem get_roster_before_first_divider:
  "browse L W s (Some ''Roster/List?pageNo=1&row=1'') ''roster'' = (s1, Inr response) \<Longrightarrow>
   resp_id response \<noteq> ''account-login'' \<Longrightarrow>
   resp_content response = Some content \<Longrightarrow>
   find_attrs ''data-role'' ''listview'' content = Some list_view \<Longrightarrow>
   find_all_children ''li'' list_view = map fst rds @ rest \<Longrightarrow>
   \<forall>(r, dt) \<in> set rds. \<not> is_divider r \<and> detail_of r = Inr dt \<Longrightarrow>
   roster_loop None None
     (map (\<lambda>(r, dt). \<lparr>item_date = None, item_title = None, item_detail = dt\<rparr>) rds) rest
     = Inr shifts \<Longrightarrow>
   get_roster L W s = (s1, Inr \<lparr>snap_time = resp_time response, snap_items = shifts\<rparr>) \<and>
   take (length rds) shifts =
     map (\<lambda>(r, dt). \<lparr>item_date = None, item_title = None, item_detail = dt\<rparr>) rds"
proof -
  assume b: "browse L W s (Some ''Roster/List?pageNo=1&row=1'') ''roster'' = (s1, Inr response)"
    and ident: "resp_id response \<noteq> ''account-login''"
    and c: "resp_content response = Some content"
    and lv: "find_attrs ''data-role'' ''listview'' content = Some list_view"
    and kids: "find_all_children ''li'' list_view = map fst rds @ rest"
    and rows: "\<forall>(r, dt) \<in> set rds. \<not> is_divider r \<and> detail_of r = Inr dt"
    and tail: "roster_loop None None
       (map (\<lambda>(r, dt). \<lparr>item_date = None, item_title = None, item_detail = dt\<rparr>) rds) rest
       = Inr shifts"
  have "roster_loop None None [] (map fst rds @ rest) = Inr shifts"
    using roster_loop_rows[OF rows, of None None "[]" rest] tail by simp
  then have g: "get_roster L W s =
                  (s1, Inr \<lparr>snap_time = resp_time response, snap_items = shifts\<rparr>)"
    using b ident c lv kids by (simp add: get_roster_def parse_roster_def)
  have "take (length (map (\<lambda>(r, dt). \<lparr>item_date = None, item_title = None,
                                       item_detail = dt\<rparr>) rds)) shifts =
        map (\<lambda>(r, dt). \<lparr>item_date = None, item_title = None, item_detail = dt\<rparr>) rds"
    by (rule roster_loop_prefix[OF tail])
  with g show ?thesis by simp
qed

theorem get_roster_before_first_divider_witness:
  "snd (get_roster lib0 world_headless_roster logged_in_session) =
     Inr \<lparr>snap_time = time1,
          snap_items =
            [\<lparr>item_date = None, item_title = None, item_detail = row_detail\<rparr>,
             \<lparr>item_date = Some \<lparr>year = 2019, month = 6, day = 11\<rparr>,
              item_title = Some ''ABCDE - Melbourne Office'', item_detail = row_detail\<rparr>]\<rparr>"
proof -
  let ?ul = "Tag ''ul'' [(''data-role'', ''listview'')] [roster_row, roster_divider, roster_row]"
  let ?resp = "\<lparr>resp_time = time1, resp_id = ''roster-list'',
                 resp_content = Some (content_div [?ul])\<rparr>"
  let ?shifts = "[\<lparr>item_date = None, item_title = None, item_detail = row_detail\<rparr>,
             \<lparr>item_date = Some \<lparr>year = 2019, month = 6, day = 11\<rparr>,
              item_title = Some ''ABCDE - Melbourne Office'', item_detail = row_detail\<rparr>]"
  have resp: "snd (browse lib0 world_headless_roster logged_in_session
                     (Some ''Roster/List?pageNo=1&row=1'') ''roster'') = Inr ?resp"
    by (simp add: roster_defs page_defs world_defs tree_defs browse_defs)
  then have b: "browse lib0 world_headless_roster logged_in_session
                  (Some ''Roster/List?pageNo=1&row=1'') ''roster'' =
      (fst (browse lib0 world_headless_roster logged_in_session
              (Some ''Roster/List?pageNo=1&row=1'') ''roster''), Inr ?resp)"
    by (simp add: prod_eq_iff)
  have ident: "resp_id ?resp \<noteq> ''account-login''" by simp
  have c: "resp_content ?resp = Some (content_div [?ul])" by simp
  have lv: "find_attrs ''data-role'' ''listview'' (content_div [?ul]) = Some ?ul"
    by (simp add: content_div_def find_attrs_def has_attr_def first_of_def)
  have kids: "find_all_children ''li'' ?ul =
              map fst [(roster_row, row_detail)] @ [roster_divider, roster_row]"
    by (simp add: find_all_children_def named_def roster_divider_def roster_row_def)
  have rows: "\<forall>(r, dt) \<in> set [(roster_row, row_detail)].
                \<not> is_divider r \<and> detail_of r = Inr dt"
    by (simp add: is_divider_fixtures detail_of_roster_row)
  have part: "str_partition '' - '' ''Tue 11/06/2019 - ABCDE - Melbourne Office'' =
              (''Tue 11/06/2019'', '' - '', ''ABCDE - Melbourne Office'')"
    by (simp add: str_partition_def)
  have str: "string_of roster_divider = Some ''Tue 11/06/2019 - ABCDE - Melbourne Office''"
    by (simp add: roster_divider_def)
  have tail: "roster_loop None None
       (map (\<lambda>(r, dt). \<lparr>item_date = None, item_title = None, item_detail = dt\<rparr>)
          [(roster_row, row_detail)]) [roster_divider, roster_row] = Inr ?shifts"
    by (simp add: is_divider_fixtures detail_of_roster_row strptime_example part str)
  from get_roster_before_first_divider[OF b ident c lv kids rows tail]
  show ?thesis by simp
qed

text \<open>Padding to a width given as a numeral, for the evaluation of concrete times.\<close>

lemma zpad_numeral: "zpad (numeral k) n = zpad (pred_numeral k) (n div 10) @ [digit n]"
  by (simp only: numeral_eq_Suc[of k] zpad.simps(2))

text \<open>
  C3.  Every file that \<open>save_logs\<close> writes holds, in this order, the line of the capture
  time, the line of the request method and URL, the status line, an empty line, one line
  for each response header, an empty line, and the body of the response.  There is one
  file for each exchange of each log entry (the redirects, then the final response), named
  by the capture time, the purpose and the index of the exchange.
\<close>

theorem save_logs_text:
  "save_logs s directory =
     concat (map (\<lambda>entry.
        map (\<lambda>(index, response).
               (directory,
                strftime (entry_time entry) @ ''-'' @ entry_purpose entry @ ''-'' @
                  str_nat index @ ''.txt'',
                str_datetime (entry_time entry) @ nl @
                req_method response @ '' '' @ req_url response @ nl @
                str_nat (status_code response) @ '' '' @ str_reason (reason response) @ nl @
                nl @
                concat (header_lines (headers response)) @
                nl @
                body_text response))
            (enumerate 0 (history (entry_response entry) @ [final (entry_response entry)])))
        (log s))"
  by (simp add: save_logs_def log_lines_def log_filename_def)

theorem save_logs_text_witness:
  "save_logs logged_session ''logs'' =
     [(''logs'',
       ''20190610T042837.160169Z-login-0.txt'',
       ''2019-06-10 04:28:37.160169+00:00'' @ nl @
       ''GET http://example.com/RosterOnProd/Mobile/Account/Login'' @ nl @
       ''200 None'' @ nl @
       nl @
       ''Date: Mon, 10 Jun 2019 04:28:38 GMT'' @ nl @
       nl @
       ''<!DOCTYPE html>'')]"
proof -
  have t: "strftime time0 = ''20190610T042837.160169Z''"
    by (simp add: strftime_def time0_def zpad_numeral digit_def)
  have d: "str_datetime time0 = ''2019-06-10 04:28:37.160169+00:00''"
    by (simp add: str_datetime_def time0_def zpad_numeral digit_def)
  have n: "str_nat 0 = ''0''" "str_nat 200 = ''200''"
    by (simp_all add: str_nat_def zpad_numeral digit_def)
  show ?thesis
    using save_logs_text[of logged_session "''logs''"]
    by (simp add: logged_session_def login_entry_def new_session_def ok_response_def
          date_header_def test_url_def header_lines_def str_reason_def t d n)
qed

theorem save_logs_text_counterexample:
  "save_logs logged_session ''logs'' \<noteq>
     [(''logs'', log_filename login_entry 0,
       spec_log_text login_entry (final (entry_response login_entry)))]"
  by (simp add: save_logs_def log_lines_def spec_log_text_def logged_session_def
        login_entry_def new_session_def ok_response_def date_header_def header_lines_def nl_def)

text \<open>
  What the classification of \<open>browse\<close> gives, once the \<^verbatim>\<open>except\<close> clause has been
  applied, for every page.
\<close>

lemma classify_cases:
  "except_clause purpose (classify sp dt) =
     (case sp of
        None \<Rightarrow> Inl (BadResponseError purpose)
      | Some doc \<Rightarrow>
          (case find_attrs ''data-role'' ''page'' doc of
             None \<Rightarrow> Inl (BadResponseError purpose)
           | Some page_div \<Rightarrow>
               (case map_of (attrs page_div) ''id'' of
                  None \<Rightarrow> Inl KeyError
                | Some page_id \<Rightarrow>
                    Inr \<lparr>resp_time = dt, resp_id = page_id,
                         resp_content = find_attrs ''data-role'' ''content'' page_div\<rparr>)))"
  by (simp add: except_clause_def classify_def getitem_def split: option.splits)

text \<open>
  C1.  Of the three traits of a page, the absence of only one is turned into
  \<open>BadResponseError\<close>: a response with no page container.  A page container with no
  \<^verbatim>\<open>id\<close> lets a \<open>KeyError\<close> escape, and a page container with no content container
  gives a response whose content is \<open>None\<close>, with no error.
\<close>

theorem browse_missing_traits:
  "snd (browse lib0 world_unexpected new_session (Some roster_path) ''roster'') =
     Inl (BadResponseError ''roster'') \<and>
   snd (browse lib0 world_anonymous new_session (Some roster_path) ''roster'') = Inl KeyError \<and>
   snd (browse lib0 world_bare_login new_session (Some roster_path) ''roster'') =
     Inr \<lparr>resp_time = time0, resp_id = ''account-login'', resp_content = None\<rparr>"
proof -
  have a: "snd (browse lib0 world_unexpected new_session (Some roster_path) ''roster'') =
     Inl (BadResponseError ''roster'')"
    by (simp add: world_unexpected_def unexpected_html_def roster_path_def page_defs world_defs
        tree_defs browse_defs)
  have b: "snd (browse lib0 world_anonymous new_session (Some roster_path) ''roster'') =
     Inl KeyError"
    by (simp add: world_anonymous_def anonymous_html_def roster_path_def page_defs world_defs
        tree_defs browse_defs)
  have c: "snd (browse lib0 world_bare_login new_session (Some roster_path) ''roster'') =
     Inr \<lparr>resp_time = time0, resp_id = ''account-login'', resp_content = None\<rparr>"
    by (simp add: world_bare_login_def bare_login_html_def roster_path_def page_defs world_defs
        tree_defs browse_defs)
  from a b c show ?thesis by simp
qed

text \<open>
  What \<open>log_in\<close> raises after a response that is not the home page, when the content has
  the block of validation errors and every list item of the block has a string.
\<close>

lemma login_failure_block:
  "resp_content response = Some content \<Longrightarrow>
   find_class ''validation-summary-errors'' content = Some error_div \<Longrightarrow>
   stripped_strings (find_all ''li'' error_div) = Inr errors \<Longrightarrow>
   login_failure username response =
     (if errors = [''Logon failure: unknown user name or bad password.'']
      then BadCredentialsError username else BadResponseError ''home'')"
  by (cases errors) (auto simp: login_failure_def)

lemma login_failure_no_block:
  "resp_content response = Some content \<Longrightarrow>
   find_class ''validation-summary-errors'' content = None \<Longrightarrow>
   login_failure username response = AttributeError"
  by (simp add: login_failure_def)

lemma log_in_bad_credentials:
  "snd (log_in lib0 world_bad_credentials new_session ''joe.bloggs'' ''abc123'') =
     Inl (BadCredentialsError ''joe.bloggs'')"
  by (simp add: log_in_def login_failure_def select_form_def strip_def
        world_bad_credentials_def page_defs world_defs tree_defs browse_defs
        split: prod.splits)

text \<open>
  C2.  A login whose form is answered with the login page again, with no block of
  validation errors in the content, ends in an \<open>AttributeError\<close>, not in
  \<open>BadResponseError\<close>.
\<close>

theorem log_in_without_error_block:
  "snd (log_in lib0 world_login_again new_session ''joe.bloggs'' ''abc123'') =
     Inl AttributeError"
  by (simp add: log_in_def login_failure_def select_form_def strip_def
        world_login_again_def page_defs world_defs tree_defs browse_defs
        split: prod.splits)

end
